theory Spec2Isabelle
  imports Complex_Main
begin

section \<open>Data model\<close>

text \<open>
  The playback engine of \<^verbatim>\<open>src/index.tsx\<close> is a set of module-level variables
  (\<^verbatim>\<open>isPlaying\<close>, \<^verbatim>\<open>activeTikTokContainer\<close>, \<^verbatim>\<open>currentAudio\<close>,
  \<^verbatim>\<open>currentInstrumentalAudio\<close>, \<^verbatim>\<open>slideObserver\<close>, \<^verbatim>\<open>savedTikToks\<close>) mutated by
  event handlers and by callbacks registered on browser objects.  The embedding threads one
  record, \<open>world\<close>, through every function: it holds the module variables, the part of the
  browser the handlers read and write (audio elements, the speech queue, the installed voices,
  two style flags), the closure environments created by \<^verbatim>\<open>startSlideshow\<close>, and a trace of
  the calls made on browser objects, in program order.  Audio elements and closure
  environments live in stores indexed by address; \<open>audio_count\<close> and \<open>next_closure\<close> are
  the next free addresses.  \<open>beats\<close> maps the element ids of the page's pre-rendered loop
  tracks to their addresses (what \<^verbatim>\<open>document.querySelector\<close> finds).
\<close>

text \<open>Interfaces \<^verbatim>\<open>SlideData\<close> and \<^verbatim>\<open>TikTok\<close> (field \<^verbatim>\<open>id\<close> is named \<open>tiktok_id\<close>;
  the optional \<^verbatim>\<open>element\<close> back-reference is not read by the playback code).\<close>

record SlideData =
  lyrics :: string
  imageSrc :: string

record TikTok =
  tiktok_id :: string
  slides :: "SlideData list"
  character :: string
  prompt :: string
  songSrc :: "string option"
  instrumentalSrc :: "string option"
  instrumentalId :: "string option"
  useBrowserTTS :: bool
  voiceName :: "string option"

text \<open>A \<^verbatim>\<open>.tiktok-item-container\<close> element.  Such elements are only built by
  \<^verbatim>\<open>addTikTokToFeed\<close>, which always sets \<^verbatim>\<open>dataset.tiktokId\<close> and always appends one
  \<^verbatim>\<open>.horizontal-slider\<close>; \<open>children\<close> is \<^verbatim>\<open>slider.children.length\<close>, and \<open>node\<close> is the
  identity of the element (JavaScript compares elements by reference).\<close>

record container =
  node :: nat
  tiktokId :: string
  children :: nat

definition tiktokContainer :: "nat \<Rightarrow> TikTok \<Rightarrow> container" where
  "tiktokContainer n t = \<lparr>node = n, tiktokId = tiktok_id t, children = length (slides t)\<rparr>"

text \<open>An \<^verbatim>\<open>HTMLAudioElement\<close>.  Times are exact rationals; \<open>duration = None\<close> is
  \<^verbatim>\<open>NaN\<close> (metadata not loaded).  \<open>media_error\<close> is the element's \<^verbatim>\<open>error\<close> property
  (message and code).  \<open>listeners\<close> is the closure environment of the \<^verbatim>\<open>onended\<close>,
  \<^verbatim>\<open>onerror\<close> and \<^verbatim>\<open>timeupdate\<close> handlers that \<^verbatim>\<open>startSlideshow\<close> installs on a
  narration element.\<close>

record audio =
  src :: string
  paused :: bool
  loop :: bool
  volume :: rat
  currentTime :: rat
  duration :: "rat option"
  media_error :: "(string \<times> nat) option"
  listeners :: "nat option"

text \<open>A \<^verbatim>\<open>SpeechSynthesisUtterance\<close>: its text, its voice (\<open>None\<close> is the engine's default
  voice) and the closure environment its \<^verbatim>\<open>onend\<close> and \<^verbatim>\<open>onerror\<close> handlers refer to.\<close>

record utterance =
  utext :: string
  voice :: "string option"
  handlers :: nat

text \<open>The variables captured by the callbacks of one \<^verbatim>\<open>startSlideshow\<close> call:
  \<^verbatim>\<open>tiktok\<close>, \<^verbatim>\<open>slider\<close>, and the mutable locals \<^verbatim>\<open>currentSlideIndex\<close> (speech branch) and
  \<^verbatim>\<open>lastSlideIndex\<close> (audio branch).\<close>

record closure =
  tiktok :: TikTok
  slider :: container
  currentSlideIndex :: nat
  lastSlideIndex :: int

datatype effect =
    ScrollIntoView nat nat
  | Speak utterance
  | Cancel
  | Pause nat
  | Play nat
  | Load nat
  | ShowErrorPopup string
  | ConsoleError string
  | Disconnect nat
  | Observe nat nat

text \<open>\<^verbatim>\<open>slideshow.style.overflowY\<close>: \<open>Auto\<close> is free vertical scrolling, \<open>Hidden\<close> is locked.\<close>

datatype overflow = Auto | Hidden

record world =
  isPlaying :: bool
  savedTikToks :: "TikTok list"
  slideObserver :: "nat option"
  activeTikTokContainer :: "container option"
  currentAudio :: "nat option"
  currentInstrumentalAudio :: "nat option"
  audios :: "nat \<Rightarrow> audio"
  audio_count :: nat
  beats :: "(string \<times> nat) list"
  speechQueue :: "utterance list"
  voices :: "string list"
  slideshow_paused :: bool
  overflowY :: overflow
  isVisible :: "(nat \<times> nat) set"
  closures :: "nat \<Rightarrow> closure"
  next_closure :: nat
  trace :: "effect list"

section \<open>Browser primitives\<close>

definition emit :: "effect \<Rightarrow> world \<Rightarrow> world" where
  "emit e w = w\<lparr>trace := trace w @ [e]\<rparr>"

text \<open>\<^verbatim>\<open>el.pause()\<close>, \<^verbatim>\<open>el.play()\<close> and \<^verbatim>\<open>el.load()\<close> on the audio element at address \<open>a\<close>.
  \<^verbatim>\<open>play()\<close> clears the paused flag at once; a later rejection of its promise is a
  separate event.\<close>

definition audio_pause :: "nat \<Rightarrow> world \<Rightarrow> world" where
  "audio_pause a w = emit (Pause a) (w\<lparr>audios := (audios w)(a := (audios w a)\<lparr>paused := True\<rparr>)\<rparr>)"

definition audio_play :: "nat \<Rightarrow> world \<Rightarrow> world" where
  "audio_play a w = emit (Play a) (w\<lparr>audios := (audios w)(a := (audios w a)\<lparr>paused := False\<rparr>)\<rparr>)"

definition audio_load :: "nat \<Rightarrow> world \<Rightarrow> world" where
  "audio_load a w =
     emit (Load a)
       (w\<lparr>audios := (audios w)(a := (audios w a)\<lparr>paused := True, currentTime := 0\<rparr>)\<rparr>)"

text \<open>\<^verbatim>\<open>speechSynthesis\<close>: \<^verbatim>\<open>speak\<close> appends to the utterance queue and \<^verbatim>\<open>cancel\<close>
  empties it.  The model takes \<^verbatim>\<open>speaking\<close> to hold exactly while the queue has an
  utterance: an utterance counts as being spoken as soon as it is at the head of the queue.\<close>

definition speaking :: "world \<Rightarrow> bool" where
  "speaking w = (speechQueue w \<noteq> [])"

definition speech_cancel :: "world \<Rightarrow> world" where
  "speech_cancel w = emit Cancel (w\<lparr>speechQueue := []\<rparr>)"

definition speech_speak :: "utterance \<Rightarrow> world \<Rightarrow> world" where
  "speech_speak u w = emit (Speak u) (w\<lparr>speechQueue := speechQueue w @ [u]\<rparr>)"

section \<open>Playback controls\<close>

text \<open>\<^verbatim>\<open>stopSlideshow\<close> (lines 907--921).\<close>

definition stopSlideshow :: "world \<Rightarrow> world" where
  "stopSlideshow w =
    (let w1 = w\<lparr>isPlaying := False, slideshow_paused := True\<rparr>;
         w2 = (case currentAudio w1 of
                 None \<Rightarrow> w1
               | Some a \<Rightarrow> (audio_pause a w1)\<lparr>currentAudio := None\<rparr>);
         w3 = (case currentInstrumentalAudio w2 of
                 None \<Rightarrow> w2
               | Some a \<Rightarrow> (audio_pause a w2)\<lparr>currentInstrumentalAudio := None\<rparr>)
     in if speaking w3 then speech_cancel w3 else w3)"

text \<open>JavaScript helpers.  \<open>truthy\<close> is the test \<^verbatim>\<open>if (s)\<close> on a \<^verbatim>\<open>string | null\<close>
  (or \<^verbatim>\<open>string | undefined\<close>) value: it yields the string when it is neither null nor
  empty.  \<open>trim\<close> is \<^verbatim>\<open>String.prototype.trim\<close> on the white space and line terminators
  that fit in one 8-bit character.  \<open>decimal\<close> is the decimal rendering of a number in a
  template literal.\<close>

fun truthy :: "string option \<Rightarrow> string option" where
  "truthy None = None"
| "truthy (Some s) = (if s = [] then None else Some s)"

definition isWhiteSpace :: "char \<Rightarrow> bool" where
  "isWhiteSpace c \<longleftrightarrow>
     c \<in> {CHR 0x09, CHR 0x0A, CHR 0x0B, CHR 0x0C, CHR 0x0D, CHR 0x20, CHR 0xA0}"

definition trim :: "string \<Rightarrow> string" where
  "trim s = rev (dropWhile isWhiteSpace (rev (dropWhile isWhiteSpace s)))"

fun decimal :: "nat \<Rightarrow> string" where
  "decimal n =
     (if n < 10 then [char_of (48 + n)] else decimal (n div 10) @ [char_of (48 + n mod 10)])"

text \<open>\<^verbatim>\<open>slider.children[i]?.scrollIntoView(...)\<close>: a call on the \<open>i\<close>-th slide of the
  container when that child exists, nothing otherwise.\<close>

definition scrollIntoView :: "container \<Rightarrow> int \<Rightarrow> world \<Rightarrow> world" where
  "scrollIntoView c i w =
     (if 0 \<le> i \<and> i < int (children c) then emit (ScrollIntoView (node c) (nat i)) w else w)"

text \<open>\<^verbatim>\<open>new Audio(src)\<close>: a fresh, paused element at the next free address.\<close>

definition new_Audio :: "string \<Rightarrow> world \<Rightarrow> nat \<times> world" where
  "new_Audio s w =
     (audio_count w,
      w\<lparr>audios := (audios w)(audio_count w :=
            \<lparr>src = s, paused = True, loop = False, volume = 1, currentTime = 0,
             duration = None, media_error = None, listeners = None\<rparr>),
        audio_count := Suc (audio_count w)\<rparr>)"

text \<open>Lines 794--814 of \<^verbatim>\<open>startSlideshow\<close>: the instrumental track.  A beat id selects a
  shared element of the page (nothing happens when the page has no such element);
  otherwise an instrumental source gets an element of its own.\<close>

definition startSlideshow_instrumental :: "TikTok \<Rightarrow> world \<Rightarrow> world" where
  "startSlideshow_instrumental t w =
    (case truthy (instrumentalId t) of
       Some i \<Rightarrow>
         (case map_of (beats w) i of
            None \<Rightarrow> w
          | Some a \<Rightarrow>
              audio_play a (audio_load a
                (w\<lparr>currentInstrumentalAudio := Some a,
                   audios := (audios w)(a := (audios w a)\<lparr>currentTime := 0, volume := 1 / 5\<rparr>)\<rparr>)))
     | None \<Rightarrow>
         (case truthy (instrumentalSrc t) of
            Some s \<Rightarrow>
              (case new_Audio s w of
                 (a, w1) \<Rightarrow>
                   audio_play a
                     (w1\<lparr>currentInstrumentalAudio := Some a,
                        audios := (audios w1)(a := (audios w1 a)\<lparr>loop := True, volume := 2 / 5\<rparr>)\<rparr>))
          | None \<Rightarrow> w))"

text \<open>The catch handler of the instrumental \<^verbatim>\<open>play()\<close> promise (lines 803--805 and
  811--813), with the rejection's message.\<close>

definition instrumental_play_catch :: "string \<Rightarrow> world \<Rightarrow> world" where
  "instrumental_play_catch msg w =
     emit (ShowErrorPopup (''Instrumental playback failed:'' @ [CHR 0x0A] @ msg)) w"

text \<open>Lines 840--849: the voice of the utterance.  The named voice when the item names one
  and \<^verbatim>\<open>getVoices()\<close> has it, otherwise the utterance keeps the default voice.\<close>

definition selectedVoice :: "TikTok \<Rightarrow> world \<Rightarrow> string option" where
  "selectedVoice t w =
     (case truthy (voiceName t) of
        None \<Rightarrow> None
      | Some n \<Rightarrow> find (\<lambda>v. v = n) (voices w))"

text \<open>\<^verbatim>\<open>currentSlideIndex++\<close> in the closure environment \<open>k\<close>.\<close>

definition increment_currentSlideIndex :: "nat \<Rightarrow> world \<Rightarrow> world" where
  "increment_currentSlideIndex k w =
     w\<lparr>closures := (closures w)(k := (closures w k)
          \<lparr>currentSlideIndex := Suc (currentSlideIndex (closures w k))\<rparr>)\<rparr>"

text \<open>\<^verbatim>\<open>speakAndAdvance\<close> (lines 819--861) in the closure environment \<open>k\<close>.  The scroll comes
  before the test of the lyrics; an empty or blank slide advances the cursor and recurses.\<close>

function speakAndAdvance :: "nat \<Rightarrow> world \<Rightarrow> world" where
  "speakAndAdvance k w =
    (if length (slides (tiktok (closures w k))) \<le> currentSlideIndex (closures w k) \<or> \<not> isPlaying w
     then stopSlideshow w
     else if trim (lyrics (slides (tiktok (closures w k)) ! currentSlideIndex (closures w k))) = []
     then speakAndAdvance k
            (increment_currentSlideIndex k
               (scrollIntoView (slider (closures w k)) (int (currentSlideIndex (closures w k))) w))
     else speech_speak
            \<lparr>utext = lyrics (slides (tiktok (closures w k)) ! currentSlideIndex (closures w k)),
             voice = selectedVoice (tiktok (closures w k)) w,
             handlers = k\<rparr>
            (scrollIntoView (slider (closures w k)) (int (currentSlideIndex (closures w k))) w))"
  by pat_completeness auto

lemma closures_scrollIntoView [simp]: "closures (scrollIntoView c i w) = closures w"
  by (simp add: scrollIntoView_def emit_def)

termination speakAndAdvance
  by (relation "measure (\<lambda>(k, w).
        length (slides (tiktok (closures w k))) - currentSlideIndex (closures w k))")
     (auto simp: increment_currentSlideIndex_def)

declare speakAndAdvance.simps [simp del]

text \<open>The \<^verbatim>\<open>onend\<close> and \<^verbatim>\<open>onerror\<close> handlers of an utterance (lines 851--859);
  \<open>err\<close> is the event's \<^verbatim>\<open>error\<close> code.\<close>

definition utterance_onend :: "utterance \<Rightarrow> world \<Rightarrow> world" where
  "utterance_onend u w = speakAndAdvance (handlers u) (increment_currentSlideIndex (handlers u) w)"

definition utterance_onerror :: "string \<Rightarrow> world \<Rightarrow> world" where
  "utterance_onerror err w =
     stopSlideshow
       (emit (ShowErrorPopup (''Speech synthesis failed: '' @ err))
          (emit (ConsoleError ''SpeechSynthesis Error:'') w))"

text \<open>The handlers of the narration element (lines 866--903): the catch handler of its
  \<^verbatim>\<open>play()\<close> promise, \<^verbatim>\<open>onended\<close>, \<^verbatim>\<open>onerror\<close> and the \<^verbatim>\<open>timeupdate\<close> listener of the
  closure environment \<open>k\<close>.  \<^verbatim>\<open>onerror\<close> and the listener read the module variable
  \<^verbatim>\<open>currentAudio\<close>, not the element they were installed on.\<close>

definition vocal_play_catch :: "string \<Rightarrow> world \<Rightarrow> world" where
  "vocal_play_catch msg w =
     stopSlideshow (emit (ShowErrorPopup (''Vocal playback failed:'' @ [CHR 0x0A] @ msg)) w)"

definition audio_onended :: "world \<Rightarrow> world" where
  "audio_onended w = stopSlideshow w"

definition audio_onerror :: "world \<Rightarrow> world" where
  "audio_onerror w =
    (let audioError = (case currentAudio w of None \<Rightarrow> None | Some a \<Rightarrow> media_error (audios w a));
         errorMessage =
           (case audioError of
              Some (m, c) \<Rightarrow> m @ '' (code: '' @ decimal c @ '')''
            | None \<Rightarrow> ''An unknown error occurred.'')
     in stopSlideshow
          (emit (ShowErrorPopup (''Vocal playback failed:'' @ [CHR 0x0A] @ errorMessage)) w))"

definition audio_timeupdate :: "nat \<Rightarrow> world \<Rightarrow> world" where
  "audio_timeupdate k w =
    (case currentAudio w of
       None \<Rightarrow> w
     | Some a \<Rightarrow>
         (case duration (audios w a) of
            None \<Rightarrow> w
          | Some d \<Rightarrow>
              if paused (audios w a) \<or> d = 0 then w
              else
                (let slideDuration = d / of_nat (length (slides (tiktok (closures w k))));
                     currentSlideIndex = \<lfloor>currentTime (audios w a) / slideDuration\<rfloor>
                 in if currentSlideIndex \<noteq> lastSlideIndex (closures w k) \<and>
                       currentSlideIndex < int (length (slides (tiktok (closures w k))))
                    then (scrollIntoView (slider (closures w k)) currentSlideIndex w)
                           \<lparr>closures := (closures w)(k := (closures w k)
                               \<lparr>lastSlideIndex := currentSlideIndex\<rparr>)\<rparr>
                    else w)))"

text \<open>\<^verbatim>\<open>startSlideshow\<close> (lines 779--905).  The three guards come first and have no
  effect; then the stop, the flag, the instrumental track and one of the two narration
  branches.  Each narration branch allocates the closure environment of its callbacks.\<close>

definition startSlideshow_session :: "container \<Rightarrow> TikTok \<Rightarrow> world \<Rightarrow> world" where
  "startSlideshow_session c t w =
    (let w1 = w\<lparr>isPlaying := True, slideshow_paused := False\<rparr>;
         w2 = startSlideshow_instrumental t w1;
         k = next_closure w2
     in if useBrowserTTS t then
          speakAndAdvance k
            (w2\<lparr>closures := (closures w2)(k :=
                   \<lparr>tiktok = t, slider = c, currentSlideIndex = 0, lastSlideIndex = - 1\<rparr>),
                next_closure := Suc k\<rparr>)
        else
          (case truthy (songSrc t) of
             None \<Rightarrow> w2
           | Some s \<Rightarrow>
               (case new_Audio s w2 of
                  (a, w3) \<Rightarrow>
                    (let w4 = audio_play a (w3\<lparr>currentAudio := Some a\<rparr>)
                     in w4\<lparr>audios := (audios w4)(a := (audios w4 a)\<lparr>listeners := Some k\<rparr>),
                           closures := (closures w4)(k :=
                             \<lparr>tiktok = t, slider = c, currentSlideIndex = 0,
                              lastSlideIndex = - 1\<rparr>),
                           next_closure := Suc k\<rparr>))))"

definition startSlideshow :: "world \<Rightarrow> world" where
  "startSlideshow w =
    (case activeTikTokContainer w of
       None \<Rightarrow> w
     | Some c \<Rightarrow>
         (case find (\<lambda>t. tiktok_id t = tiktokId c) (savedTikToks w) of
            None \<Rightarrow> w
          | Some t \<Rightarrow>
              if children c = 0 then w
              else startSlideshow_session c t (stopSlideshow w)))"

section \<open>Observers\<close>

text \<open>\<^verbatim>\<open>setupSlideObserverForActiveTikTok\<close> (lines 739--767).  \<open>Observe n m\<close> stands for the
  \<open>m\<close> calls of \<^verbatim>\<open>observe\<close> on the slides of the container \<open>n\<close>.\<close>

definition setupSlideObserverForActiveTikTok :: "world \<Rightarrow> world" where
  "setupSlideObserverForActiveTikTok w =
    (let w1 = (case slideObserver w of None \<Rightarrow> w | Some n \<Rightarrow> emit (Disconnect n) w)
     in case activeTikTokContainer w1 of
          None \<Rightarrow> w1
        | Some c \<Rightarrow> emit (Observe (node c) (children c)) (w1\<lparr>slideObserver := Some (node c)\<rparr>))"

text \<open>The callback of \<^verbatim>\<open>tiktokObserver\<close> (lines 724--734).  An entry is its target and its
  \<^verbatim>\<open>isIntersecting\<close> flag; \<^verbatim>\<open>activeTikTokContainer !== entry.target\<close> compares element
  identities.\<close>

definition tiktokObserver_entry :: "container \<times> bool \<Rightarrow> world \<Rightarrow> world" where
  "tiktokObserver_entry e w =
    (if snd e then
       (if map_option node (activeTikTokContainer w) \<noteq> Some (node (fst e)) then
          setupSlideObserverForActiveTikTok
            ((stopSlideshow w)\<lparr>activeTikTokContainer := Some (fst e)\<rparr>)
        else w)
     else w)"

definition tiktokObserver_callback :: "(container \<times> bool) list \<Rightarrow> world \<Rightarrow> world" where
  "tiktokObserver_callback entries w = fold tiktokObserver_entry entries w"

text \<open>The callback of \<^verbatim>\<open>slideObserver\<close> (lines 747--760) for the slides of the container
  \<open>p\<close>, which has \<open>n\<close> slides.  An entry is the index of its target slide and its
  \<^verbatim>\<open>isIntersecting\<close> flag.  A slide has no previous sibling when its index is 0 and no
  next sibling when it is the last of the \<open>n\<close>.\<close>

definition slideObserver_entry :: "nat \<Rightarrow> nat \<Rightarrow> nat \<times> bool \<Rightarrow> world \<times> bool \<Rightarrow> world \<times> bool" where
  "slideObserver_entry p n e s =
    (case s of (w, isAtBounds) \<Rightarrow>
      (let w1 = w\<lparr>isVisible := (if snd e then insert (p, fst e) (isVisible w)
                                 else isVisible w - {(p, fst e)})\<rparr>;
           isFirst = (fst e = 0);
           isLast = (Suc (fst e) = n)
       in (w1, if snd e \<and> (isFirst \<or> isLast) then True else isAtBounds)))"

definition slideObserver_callback :: "nat \<Rightarrow> nat \<Rightarrow> (nat \<times> bool) list \<Rightarrow> world \<Rightarrow> world" where
  "slideObserver_callback p n entries w =
    (case fold (slideObserver_entry p n) entries (w, False) of
       (w1, isAtBounds) \<Rightarrow> w1\<lparr>overflowY := (if isAtBounds then Auto else Hidden)\<rparr>)"

section \<open>Browser events\<close>

text \<open>What the browser does when it delivers an event to the engine.  The utterance at the
  head of the speech queue finishes: it leaves the queue, then its \<^verbatim>\<open>onend\<close> handler runs.
  The element \<open>a\<close> reports playback time \<open>t\<close>: its \<^verbatim>\<open>currentTime\<close> is \<open>t\<close> when the
  \<^verbatim>\<open>timeupdate\<close> listener installed on it runs.  The narration element reaches its end: it
  is paused and its \<^verbatim>\<open>onended\<close> handler runs.\<close>

definition utterance_ended :: "world \<Rightarrow> world" where
  "utterance_ended w =
    (case speechQueue w of
       [] \<Rightarrow> w
     | u # q \<Rightarrow> utterance_onend u (w\<lparr>speechQueue := q\<rparr>))"

definition timeupdate_event :: "nat \<Rightarrow> rat \<Rightarrow> world \<Rightarrow> world" where
  "timeupdate_event a t w =
    (let w1 = w\<lparr>audios := (audios w)(a := (audios w a)\<lparr>currentTime := t\<rparr>)\<rparr>
     in case listeners (audios w1 a) of None \<Rightarrow> w1 | Some k \<Rightarrow> audio_timeupdate k w1)"

definition narration_ended :: "world \<Rightarrow> world" where
  "narration_ended w =
    (case currentAudio w of
       None \<Rightarrow> w
     | Some a \<Rightarrow> audio_onended (w\<lparr>audios := (audios w)(a := (audios w a)\<lparr>paused := True\<rparr>)\<rparr>))"

text \<open>The events of the transport: a start request, a stop request, a batch of item
  visibility entries, and the progress events of the live session (the queued utterance
  finishes, the narration element reports a time, the narration element ends).\<close>

datatype event =
    Start
  | Stop
  | Activation "(container \<times> bool) list"
  | UtteranceEnded
  | TimeProgress rat
  | NarrationEnded

fun step :: "event \<Rightarrow> world \<Rightarrow> world" where
  "step Start w = startSlideshow w"
| "step Stop w = stopSlideshow w"
| "step (Activation entries) w = tiktokObserver_callback entries w"
| "step UtteranceEnded w = utterance_ended w"
| "step (TimeProgress t) w =
     (case currentAudio w of None \<Rightarrow> w | Some a \<Rightarrow> timeupdate_event a t w)"
| "step NarrationEnded w = narration_ended w"




section \<open>Observables and invariants\<close>

text \<open>The browser calls made between two states of one run; the calls \<^verbatim>\<open>stopSlideshow\<close>
  makes from a state; the scroll and synthesis calls in a list of calls.\<close>

definition effects_since :: "world \<Rightarrow> world \<Rightarrow> effect list" where
  "effects_since w w' = drop (length (trace w)) (trace w')"

definition stop_effects :: "world \<Rightarrow> effect list" where
  "stop_effects w =
     (case currentAudio w of None \<Rightarrow> [] | Some a \<Rightarrow> [Pause a]) @
     (case currentInstrumentalAudio w of None \<Rightarrow> [] | Some a \<Rightarrow> [Pause a]) @
     (if speechQueue w = [] then [] else [Cancel])"

fun is_scroll :: "effect \<Rightarrow> bool" where
  "is_scroll (ScrollIntoView n i) = True"
| "is_scroll e = False"

fun is_speak :: "effect \<Rightarrow> bool" where
  "is_speak (Speak u) = True"
| "is_speak e = False"

fun is_play :: "effect \<Rightarrow> bool" where
  "is_play (Play a) = True"
| "is_play e = False"


definition narration_calls :: "effect list \<Rightarrow> effect list" where
  "narration_calls es = filter (\<lambda>e. is_scroll e \<or> is_speak e) es"

text \<open>Live resources: the audio elements that are playing, and the queued utterances.  A
  session holds them through the two module handles and the speech queue; the closure
  environment of a narration element or of an utterance tells which \<^verbatim>\<open>startSlideshow\<close>
  call made it, the latest call being \<open>next_closure - 1\<close>.\<close>

definition live_audio :: "world \<Rightarrow> nat set" where
  "live_audio w = {a \<in> {0..<audio_count w}. \<not> paused (audios w a)}"

definition handles :: "world \<Rightarrow> nat set" where
  "handles w = set_option (currentAudio w) \<union> set_option (currentInstrumentalAudio w)"

definition released :: "world \<Rightarrow> bool" where
  "released w \<longleftrightarrow> live_audio w = {} \<and> speechQueue w = [] \<and>
     currentAudio w = None \<and> currentInstrumentalAudio w = None"



section \<open>Example items\<close>

definition demo_slide :: "string \<Rightarrow> SlideData" where
  "demo_slide l = \<lparr>lyrics = l, imageSrc = ''data:image/png;base64,''\<rparr>"

definition demo_speech :: TikTok where
  "demo_speech =
     \<lparr>tiktok_id = ''1700000000001'', slides = map demo_slide [''A'', '''', ''C''],
      character = ''owl'', prompt = ''tides'', songSrc = None, instrumentalSrc = None,
      instrumentalId = Some ''beat-upbeat'', useBrowserTTS = True, voiceName = Some ''Alice''\<rparr>"

definition demo_song :: TikTok where
  "demo_song =
     \<lparr>tiktok_id = ''1700000000002'', slides = map demo_slide [''a'', ''b'', ''c'', ''d''],
      character = ''fox'', prompt = ''moons'', songSrc = Some ''data:audio/mpeg;base64,'',
      instrumentalSrc = Some ''data:audio/mpeg;base64,'', instrumentalId = None,
      useBrowserTTS = False, voiceName = None\<rparr>"

definition demo_blank :: TikTok where
  "demo_blank =
     \<lparr>tiktok_id = ''1700000000003'', slides = map demo_slide ['''', ''  ''],
      character = ''cat'', prompt = ''rain'', songSrc = None, instrumentalSrc = None,
      instrumentalId = Some ''beat-ballad'', useBrowserTTS = True, voiceName = None\<rparr>"

definition demo_beat :: audio where
  "demo_beat =
     \<lparr>src = ''beat-upbeat.mp3'', paused = True, loop = True, volume = 1, currentTime = 0,
      duration = Some 8, media_error = None, listeners = None\<rparr>"

text \<open>An idle page showing the item \<open>t\<close> in the feed container 7, with one beat element.\<close>

definition demo_world :: "TikTok \<Rightarrow> world" where
  "demo_world t =
     \<lparr>isPlaying = False, savedTikToks = [demo_blank, demo_song, demo_speech],
      slideObserver = None,
      activeTikTokContainer = Some (tiktokContainer 7 t), currentAudio = None,
      currentInstrumentalAudio = None, audios = (\<lambda>a. demo_beat), audio_count = 1,
      beats = [(''beat-upbeat'', 0)], speechQueue = [], voices = [''Bob'', ''Alice''],
      slideshow_paused = True, overflowY = Auto, isVisible = {},
      closures = (\<lambda>k. \<lparr>tiktok = t, slider = tiktokContainer 7 t, currentSlideIndex = 0,
                         lastSlideIndex = - 1\<rparr>),
      next_closure = 0, trace = []\<rparr>"

text \<open>The page while the narration of \<open>demo_song\<close> plays: the session has been started and
  the narration element (address 2) has loaded its metadata, a duration of 20 seconds.\<close>

definition demo_song_playing :: world where
  "demo_song_playing =
     (let w = startSlideshow (demo_world demo_song)
      in w\<lparr>audios := (audios w)(2 := (audios w 2)\<lparr>duration := Some 20\<rparr>)\<rparr>)"

text \<open>The page during the speech session of \<open>demo_speech\<close>, when the utterance of slide 0
  has just completed: it has left the queue and the cursor has moved to slide 1.\<close>

definition demo_speech_after_A :: world where
  "demo_speech_after_A =
     increment_currentSlideIndex 0 ((startSlideshow (demo_world demo_speech))\<lparr>speechQueue := []\<rparr>)"

text \<open>The page after a speech session of \<open>demo_speech\<close> was started, stopped and started
  again: the first session's closure environment is 0, the second one's is 1.  The same for
  the narration of \<open>demo_song\<close>: the first session's narration element is 2, the second
  one's is 4, which has loaded a duration of 20 seconds and plays at second 5.\<close>

definition demo_restarted :: world where
  "demo_restarted = startSlideshow (stopSlideshow (startSlideshow (demo_world demo_speech)))"

definition demo_song_restarted :: world where
  "demo_song_restarted =
     (let w = startSlideshow (stopSlideshow (startSlideshow (demo_world demo_song)))
      in w\<lparr>audios := (audios w)(4 := (audios w 4)\<lparr>duration := Some 20, currentTime := 5\<rparr>)\<rparr>)"

section \<open>Idempotence of stop\<close>

lemma stopSlideshow_isPlaying: "isPlaying (stopSlideshow w) = False"
  by (simp add: stopSlideshow_def Let_def audio_pause_def emit_def speech_cancel_def
      split: option.split)

lemma stopSlideshow_currentAudio: "currentAudio (stopSlideshow w) = None"
  by (simp add: stopSlideshow_def Let_def audio_pause_def emit_def speech_cancel_def
      split: option.split)

lemma stopSlideshow_currentInstrumentalAudio: "currentInstrumentalAudio (stopSlideshow w) = None"
  by (simp add: stopSlideshow_def Let_def audio_pause_def emit_def speech_cancel_def
      split: option.split)

lemma stopSlideshow_speechQueue: "speechQueue (stopSlideshow w) = []"
  by (simp add: stopSlideshow_def Let_def audio_pause_def emit_def speech_cancel_def speaking_def
      split: option.split)

lemma stopSlideshow_slideshow_paused: "slideshow_paused (stopSlideshow w) = True"
  by (simp add: stopSlideshow_def Let_def audio_pause_def emit_def speech_cancel_def
      split: option.split)

text \<open>An idle playback state: no session flag, no handle, nothing queued, and the
  paused style already on the body.\<close>

definition idle :: "world \<Rightarrow> bool" where
  "idle w \<longleftrightarrow> \<not> isPlaying w \<and> slideshow_paused w \<and> currentAudio w = None \<and>
     currentInstrumentalAudio w = None \<and> speechQueue w = []"

lemma idle_stopSlideshow: "idle (stopSlideshow w)"
  by (simp add: idle_def stopSlideshow_isPlaying stopSlideshow_currentAudio
      stopSlideshow_currentInstrumentalAudio stopSlideshow_speechQueue
      stopSlideshow_slideshow_paused)

lemma stopSlideshow_idle: "idle w \<Longrightarrow> stopSlideshow w = w"
  by (simp add: idle_def stopSlideshow_def speaking_def)

text \<open>
  Claim C8.  \<^verbatim>\<open>stopSlideshow\<close> has no failing branch (none of \<^verbatim>\<open>pause()\<close>,
  \<^verbatim>\<open>classList.add\<close>, \<^verbatim>\<open>speechSynthesis.cancel()\<close> throws), so it is a total function on
  worlds.  A second stop right after a stop changes nothing: the state, including the trace
  of browser calls, is the one the first stop produced, from every starting state.  A stop
  with both handles null and nothing queued makes no browser call: it only resets the
  session flag and the paused style.
\<close>

theorem stopSlideshow_idempotent:
  "stopSlideshow (stopSlideshow w) = stopSlideshow w \<and>
   (currentAudio w = None \<and> currentInstrumentalAudio w = None \<and> speechQueue w = [] \<longrightarrow>
      stopSlideshow w = w\<lparr>isPlaying := False, slideshow_paused := True\<rparr>)"
proof
  show "stopSlideshow (stopSlideshow w) = stopSlideshow w"
    using idle_stopSlideshow [of w] stopSlideshow_idle [of "stopSlideshow w"] by simp
  show "currentAudio w = None \<and> currentInstrumentalAudio w = None \<and> speechQueue w = [] \<longrightarrow>
      stopSlideshow w = w\<lparr>isPlaying := False, slideshow_paused := True\<rparr>"
    by (simp add: stopSlideshow_def speaking_def)
qed

theorem stopSlideshow_idempotent_witness:
  "currentAudio (demo_world demo_speech) = None \<and>
   currentInstrumentalAudio (demo_world demo_speech) = None \<and>
   speechQueue (demo_world demo_speech) = [] \<and>
   stopSlideshow (demo_world demo_speech) = demo_world demo_speech"
proof -
  have h: "currentAudio (demo_world demo_speech) = None \<and>
      currentInstrumentalAudio (demo_world demo_speech) = None \<and>
      speechQueue (demo_world demo_speech) = []"
    by (simp add: demo_world_def)
  have e: "(demo_world demo_speech)\<lparr>isPlaying := False, slideshow_paused := True\<rparr> =
      demo_world demo_speech"
    by (simp add: demo_world_def)
  from stopSlideshow_idempotent [of "demo_world demo_speech", THEN conjunct2, rule_format, OF h] e h
  show ?thesis by simp
qed

section \<open>Shared lemmas\<close>

lemmas prim_defs = emit_def audio_pause_def audio_play_def audio_load_def speech_cancel_def
  speech_speak_def speaking_def scrollIntoView_def increment_currentSlideIndex_def new_Audio_def

lemma stopSlideshow_eq:
  "stopSlideshow w =
     w\<lparr>isPlaying := False, slideshow_paused := True, currentAudio := None,
       currentInstrumentalAudio := None,
       audios := (\<lambda>a. if a \<in> handles w then (audios w a)\<lparr>paused := True\<rparr> else audios w a),
       speechQueue := [], trace := trace w @ stop_effects w\<rparr>"
  by (rule world.equality)
     (auto simp: stopSlideshow_def stop_effects_def handles_def Let_def prim_defs fun_eq_iff
       split: option.split)

lemma speakAndAdvance_stop:
  "length (slides (tiktok (closures w k))) \<le> currentSlideIndex (closures w k) \<or> \<not> isPlaying w
   \<Longrightarrow> speakAndAdvance k w = stopSlideshow w"
  by (subst speakAndAdvance.simps) simp

lemma speakAndAdvance_skip:
  "currentSlideIndex (closures w k) < length (slides (tiktok (closures w k))) \<Longrightarrow> isPlaying w \<Longrightarrow>
   trim (lyrics (slides (tiktok (closures w k)) ! currentSlideIndex (closures w k))) = [] \<Longrightarrow>
   speakAndAdvance k w =
     speakAndAdvance k (increment_currentSlideIndex k
       (scrollIntoView (slider (closures w k)) (int (currentSlideIndex (closures w k))) w))"
  by (subst speakAndAdvance.simps) simp

lemma speakAndAdvance_speak:
  "currentSlideIndex (closures w k) < length (slides (tiktok (closures w k))) \<Longrightarrow> isPlaying w \<Longrightarrow>
   trim (lyrics (slides (tiktok (closures w k)) ! currentSlideIndex (closures w k))) \<noteq> [] \<Longrightarrow>
   speakAndAdvance k w =
     speech_speak
       \<lparr>utext = lyrics (slides (tiktok (closures w k)) ! currentSlideIndex (closures w k)),
        voice = selectedVoice (tiktok (closures w k)) w, handlers = k\<rparr>
       (scrollIntoView (slider (closures w k)) (int (currentSlideIndex (closures w k))) w)"
  by (subst speakAndAdvance.simps) simp



lemma released_stopSlideshow:
  "live_audio w \<subseteq> handles w \<Longrightarrow> released (stopSlideshow w)"
  by (auto simp: released_def live_audio_def stopSlideshow_eq)






















section \<open>At most one live session\<close>




section \<open>Scroll containment\<close>

lemma slideObserver_entry_snd:
  "snd (slideObserver_entry p n e (w, b)) \<longleftrightarrow> b \<or> (snd e \<and> (fst e = 0 \<or> Suc (fst e) = n))"
  by (auto simp: slideObserver_entry_def Let_def)

lemma fold_slideObserver_entry_snd:
  "snd (fold (slideObserver_entry p n) entries (w, b)) \<longleftrightarrow>
     b \<or> (\<exists>e\<in>set entries. snd e \<and> (fst e = 0 \<or> Suc (fst e) = n))"
proof (induction entries arbitrary: w b)
  case Nil
  show ?case by simp
next
  case (Cons e es)
  obtain w1 b1 where step: "slideObserver_entry p n e (w, b) = (w1, b1)"
    by (cases "slideObserver_entry p n e (w, b)")
  with slideObserver_entry_snd [of p n e w b]
  have "b1 \<longleftrightarrow> b \<or> (snd e \<and> (fst e = 0 \<or> Suc (fst e) = n))" by simp
  with Cons.IH [of w1 b1] step show ?case by auto
qed

lemma overflowY_slideObserver_callback:
  "overflowY (slideObserver_callback p n entries w) =
     (if \<exists>e\<in>set entries. snd e \<and> (fst e = 0 \<or> Suc (fst e) = n) then Auto else Hidden)"
proof -
  obtain w1 b1 where f: "fold (slideObserver_entry p n) entries (w, False) = (w1, b1)"
    by (cases "fold (slideObserver_entry p n) entries (w, False)")
  from fold_slideObserver_entry_snd [of p n entries w False] f
  have "b1 \<longleftrightarrow> (\<exists>e\<in>set entries. snd e \<and> (fst e = 0 \<or> Suc (fst e) = n))" by simp
  with f show ?thesis by (simp add: slideObserver_callback_def)
qed

text \<open>
  Claim C5.  After a batch of slide visibility entries the containment mode is \<open>Auto\<close> (free)
  when some intersecting entry of the batch is the first or the last slide of its slider,
  and \<open>Hidden\<close> (locked) otherwise; it does not depend on the state before the batch.  For a
  slider of 5 slides and a batch in which exactly one slide, of index \<open>i\<close>, intersects, the
  mode is free exactly when \<open>i\<close> is 0 or 4.
\<close>

theorem slideObserver_containment:
  "overflowY (slideObserver_callback p n entries w) =
     (if \<exists>e\<in>set entries. snd e \<and> (fst e = 0 \<or> Suc (fst e) = n) then Auto else Hidden)
   \<and> overflowY (slideObserver_callback p n entries w) =
       overflowY (slideObserver_callback p n entries w')
   \<and> (fst ` {e \<in> set entries. snd e} = {i} \<longrightarrow>
        (overflowY (slideObserver_callback p 5 entries w) = Auto \<longleftrightarrow> i = 0 \<or> i = 4))"
proof (intro conjI impI)
  show "overflowY (slideObserver_callback p n entries w) =
     (if \<exists>e\<in>set entries. snd e \<and> (fst e = 0 \<or> Suc (fst e) = n) then Auto else Hidden)"
    by (rule overflowY_slideObserver_callback)
  show "overflowY (slideObserver_callback p n entries w) =
       overflowY (slideObserver_callback p n entries w')"
    by (simp only: overflowY_slideObserver_callback)
next
  assume one: "fst ` {e \<in> set entries. snd e} = {i}"
  have "(\<exists>e\<in>set entries. snd e \<and> (fst e = 0 \<or> Suc (fst e) = 5)) \<longleftrightarrow>
        (\<exists>j \<in> fst ` {e \<in> set entries. snd e}. j = 0 \<or> j = 4)"
    by fastforce
  also have "\<dots> \<longleftrightarrow> i = 0 \<or> i = 4"
    by (simp only: one) simp
  finally show "overflowY (slideObserver_callback p 5 entries w) = Auto \<longleftrightarrow> i = 0 \<or> i = 4"
    by (simp add: overflowY_slideObserver_callback)
qed

theorem slideObserver_containment_witness:
  "fst ` {e \<in> set [(3, False), (4, True)]. snd e} = {4 :: nat} \<and>
   overflowY (slideObserver_callback 7 5 [(3, False), (4, True)] (demo_world demo_song)) = Auto \<and>
   fst ` {e \<in> set [(0, False), (1, True)]. snd e} = {1 :: nat} \<and>
   overflowY (slideObserver_callback 7 5 [(0, False), (1, True)] (demo_world demo_song)) \<noteq> Auto"
proof -
  have a: "fst ` {e \<in> set [(3, False), (4, True)]. snd e} = {4 :: nat}" by code_simp
  have b: "fst ` {e \<in> set [(0, False), (1, True)]. snd e} = {1 :: nat}" by code_simp
  from a b
    slideObserver_containment [of 7 5 "[(3, False), (4, True)]" "demo_world demo_song"
      "demo_world demo_song" 4]
    slideObserver_containment [of 7 5 "[(0, False), (1, True)]" "demo_world demo_song"
      "demo_world demo_song" 1]
  show ?thesis by simp
qed

section \<open>Time-proportional advancement\<close>









section \<open>Sequential speech\<close>

lemma startSlideshow_instrumental_frame:
  "isPlaying (startSlideshow_instrumental t w) = isPlaying w"
  "closures (startSlideshow_instrumental t w) = closures w"
  "next_closure (startSlideshow_instrumental t w) = next_closure w"
  "speechQueue (startSlideshow_instrumental t w) = speechQueue w"
  "voices (startSlideshow_instrumental t w) = voices w"
  "currentAudio (startSlideshow_instrumental t w) = currentAudio w"
  by (simp_all add: startSlideshow_instrumental_def prim_defs split: option.split)

lemma trace_startSlideshow_instrumental:
  "\<exists>es. trace (startSlideshow_instrumental t w) = trace w @ es \<and> narration_calls es = []"
  by (simp add: startSlideshow_instrumental_def prim_defs narration_calls_def split: option.split)

lemma narration_calls_stop_effects: "narration_calls (stop_effects w) = []"
  by (simp add: narration_calls_def stop_effects_def split: option.split)

lemma effects_since_append: "trace w' = trace w @ es \<Longrightarrow> effects_since w w' = es"
  by (simp add: effects_since_def)

text \<open>
  Claim C3.  A synthesized-speech session is started on an item whose slides are
  \<open>[A, B, C]\<close>, \<open>A\<close> and \<open>C\<close> with text that is not blank and \<open>B\<close> empty (or blank).  The
  start scrolls to slide 0 and queues the utterance for \<open>A\<close>, and nothing else is queued.
  The completion of that utterance scrolls to slide 1, then to slide 2, and queues the
  utterance for \<open>C\<close>: the second utterance is queued by the completion handler of the
  first.  The completion of the second utterance makes no scroll and no synthesis call and
  leaves the engine idle.  So there are exactly two synthesis calls, for \<open>A\<close> then for \<open>C\<close>,
  none for \<open>B\<close>, and exactly three scrolls, of the slides 0, 1, 2 in that order.
\<close>

theorem speech_three_slides:
  assumes act: "activeTikTokContainer w = Some c"
    and found: "find (\<lambda>t. tiktok_id t = tiktokId c) (savedTikToks w) = Some t"
    and ch: "children c = 3"
    and tts: "useBrowserTTS t"
    and sl: "slides t = [sA, sB, sC]"
    and A: "trim (lyrics sA) \<noteq> []" and B: "trim (lyrics sB) = []" and C: "trim (lyrics sC) \<noteq> []"
  shows "(let w1 = startSlideshow w; w2 = utterance_ended w1; w3 = utterance_ended w2;
              uA = \<lparr>utext = lyrics sA, voice = selectedVoice t w, handlers = next_closure w\<rparr>;
              uC = \<lparr>utext = lyrics sC, voice = selectedVoice t w, handlers = next_closure w\<rparr>
          in narration_calls (effects_since w w1) = [ScrollIntoView (node c) 0, Speak uA]
           \<and> speechQueue w1 = [uA]
           \<and> effects_since w1 w2 = [ScrollIntoView (node c) 1, ScrollIntoView (node c) 2, Speak uC]
           \<and> speechQueue w2 = [uC]
           \<and> narration_calls (effects_since w2 w3) = []
           \<and> idle w3)"
proof -
  define k where "k = next_closure w"
  define env where "env = \<lparr>tiktok = t, slider = c, currentSlideIndex = 0, lastSlideIndex = - 1\<rparr>"
  define wa where "wa = (stopSlideshow w)\<lparr>isPlaying := True, slideshow_paused := False\<rparr>"
  define wb where "wb = startSlideshow_instrumental t wa"
  define wc where "wc = wb\<lparr>closures := (closures wb)(k := env), next_closure := Suc k\<rparr>"
  define uA where "uA = \<lparr>utext = lyrics sA, voice = selectedVoice t w, handlers = k\<rparr>"
  define uC where "uC = \<lparr>utext = lyrics sC, voice = selectedVoice t w, handlers = k\<rparr>"
  have kb: "next_closure wb = k"
    by (simp add: wb_def wa_def k_def startSlideshow_instrumental_frame stopSlideshow_eq)
  have start: "startSlideshow w = speakAndAdvance k wc"
    using act found ch tts kb
    by (simp add: startSlideshow_def startSlideshow_session_def Let_def wc_def wb_def wa_def env_def)
  obtain es0 where es0: "trace wb = trace w @ stop_effects w @ es0" "narration_calls es0 = []"
    using trace_startSlideshow_instrumental [of t wa]
    by (auto simp: wb_def wa_def stopSlideshow_eq)
  have wc: "isPlaying wc" "speechQueue wc = []" "voices wc = voices w" "closures wc k = env"
    "trace wc = trace w @ stop_effects w @ es0"
    using es0 by (simp_all add: wc_def wb_def wa_def startSlideshow_instrumental_frame stopSlideshow_eq)
  have sv: "selectedVoice t x = selectedVoice t w" if "voices x = voices w" for x
    using that by (simp add: selectedVoice_def split: option.split)
  define w1 where "w1 = speech_speak uA (scrollIntoView c 0 wc)"
  have w1: "speakAndAdvance k wc = w1"
    using wc A sl sv [of wc]
    by (simp add: speakAndAdvance_speak env_def w1_def uA_def)
  have w1f: "isPlaying w1" "speechQueue w1 = [uA]" "voices w1 = voices w" "closures w1 = closures wc"
    "trace w1 = trace wc @ [ScrollIntoView (node c) 0, Speak uA]"
    using wc ch by (simp_all add: w1_def prim_defs)
  define wd where "wd = increment_currentSlideIndex k (w1\<lparr>speechQueue := []\<rparr>)"
  have wd: "isPlaying wd" "speechQueue wd = []" "voices wd = voices w"
    "closures wd k = env\<lparr>currentSlideIndex := 1\<rparr>" "trace wd = trace w1"
    using w1f wc by (simp_all add: wd_def prim_defs env_def)
  define we where "we = increment_currentSlideIndex k (scrollIntoView c 1 wd)"
  have we: "isPlaying we" "speechQueue we = []" "voices we = voices w"
    "closures we k = env\<lparr>currentSlideIndex := 2\<rparr>" "trace we = trace w1 @ [ScrollIntoView (node c) 1]"
    using wd ch by (simp_all add: we_def prim_defs env_def)
  define w2 where "w2 = speech_speak uC (scrollIntoView c 2 we)"
  have step2: "speakAndAdvance k wd = w2"
  proof -
    have "speakAndAdvance k wd = speakAndAdvance k we"
      using wd B sl by (simp add: speakAndAdvance_skip env_def we_def)
    also have "\<dots> = w2"
      using we C sl sv [of we] by (simp add: speakAndAdvance_speak env_def w2_def uC_def)
    finally show ?thesis .
  qed
  have w2f: "isPlaying w2" "speechQueue w2 = [uC]" "closures w2 = closures we"
    "trace w2 = trace w1 @ [ScrollIntoView (node c) 1, ScrollIntoView (node c) 2, Speak uC]"
    using we ch by (simp_all add: w2_def prim_defs)
  have ended1: "utterance_ended w1 = w2"
    using w1f step2 by (simp add: utterance_ended_def utterance_onend_def uA_def wd_def)
  define wf where "wf = increment_currentSlideIndex k (w2\<lparr>speechQueue := []\<rparr>)"
  have wf: "closures wf k = env\<lparr>currentSlideIndex := 3\<rparr>" "trace wf = trace w2"
    using w2f we by (simp_all add: wf_def prim_defs env_def)
  have ended2: "utterance_ended w2 = stopSlideshow wf"
    using w2f wf sl
    by (simp add: utterance_ended_def utterance_onend_def uC_def wf_def [symmetric]
        speakAndAdvance_stop env_def)
  have "narration_calls (effects_since w w1) = [ScrollIntoView (node c) 0, Speak uA]"
    using w1f wc es0 by (simp add: effects_since_def narration_calls_def narration_calls_stop_effects [unfolded narration_calls_def])
  moreover have "effects_since w1 w2 = [ScrollIntoView (node c) 1, ScrollIntoView (node c) 2, Speak uC]"
    using w2f by (simp add: effects_since_def)
  moreover have "narration_calls (effects_since w2 (stopSlideshow wf)) = []"
    using wf by (simp add: effects_since_def stopSlideshow_eq narration_calls_stop_effects)
  moreover have "idle (stopSlideshow wf)" by (rule idle_stopSlideshow)
  ultimately show ?thesis
    using w1f w2f start w1 ended1 ended2
    by (simp add: Let_def uA_def uC_def k_def)
qed


theorem speech_three_slides_witness:
  "narration_calls (effects_since (demo_world demo_speech) (startSlideshow (demo_world demo_speech))) =
     [ScrollIntoView 7 0, Speak \<lparr>utext = ''A'', voice = Some ''Alice'', handlers = 0\<rparr>] \<and>
   effects_since (startSlideshow (demo_world demo_speech))
       (utterance_ended (startSlideshow (demo_world demo_speech))) =
     [ScrollIntoView 7 1, ScrollIntoView 7 2,
      Speak \<lparr>utext = ''C'', voice = Some ''Alice'', handlers = 0\<rparr>] \<and>
   idle (utterance_ended (utterance_ended (startSlideshow (demo_world demo_speech))))"
proof -
  have h: "activeTikTokContainer (demo_world demo_speech) = Some (tiktokContainer 7 demo_speech)"
    "find (\<lambda>t. tiktok_id t = tiktokId (tiktokContainer 7 demo_speech))
       (savedTikToks (demo_world demo_speech)) = Some demo_speech"
    "children (tiktokContainer 7 demo_speech) = 3"
    "useBrowserTTS demo_speech"
    "slides demo_speech = [demo_slide ''A'', demo_slide '''', demo_slide ''C'']"
    "trim (lyrics (demo_slide ''A'')) \<noteq> []"
    "trim (lyrics (demo_slide '''')) = []"
    "trim (lyrics (demo_slide ''C'')) \<noteq> []"
    by code_simp+
  have v: "selectedVoice demo_speech (demo_world demo_speech) = Some ''Alice''"
    "next_closure (demo_world demo_speech) = 0"
    "node (tiktokContainer 7 demo_speech) = 7"
    "lyrics (demo_slide ''A'') = ''A''" "lyrics (demo_slide ''C'') = ''C''"
    by code_simp+
  from speech_three_slides [OF h] show ?thesis
    by (simp add: Let_def v)
qed


section \<open>Termination of a speech session\<close>

lemma trace_scrollIntoView:
  "trace (scrollIntoView c i w) =
     trace w @ (if 0 \<le> i \<and> i < int (children c) then [ScrollIntoView (node c) (nat i)] else [])"
  by (simp add: prim_defs)














section \<open>Slides of a speech session\<close>

lemma not_speak_stop_effects: "Speak u \<notin> set (stop_effects w)"
  by (simp add: stop_effects_def split: option.split)

lemma trace_speakAndAdvance:
  "\<exists>es. trace (speakAndAdvance k w) = trace w @ es \<and>
     (\<forall>u. Speak u \<in> set es \<longrightarrow> trim (utext u) \<noteq> [] \<and> handlers u = k)"
proof (induction k w rule: speakAndAdvance.induct)
  case (1 k w)
  let ?i = "currentSlideIndex (closures w k)"
  let ?t = "tiktok (closures w k)"
  let ?w1 = "scrollIntoView (slider (closures w k)) (int ?i) w"
  let ?sc = "if 0 \<le> int ?i \<and> int ?i < int (children (slider (closures w k)))
             then [ScrollIntoView (node (slider (closures w k))) (nat (int ?i))] else []"
  have sc: "\<And>u. Speak u \<notin> set ?sc" by simp
  consider (stop) "length (slides ?t) \<le> ?i \<or> \<not> isPlaying w"
    | (skip) "?i < length (slides ?t)" "isPlaying w" "trim (lyrics (slides ?t ! ?i)) = []"
    | (speak) "?i < length (slides ?t)" "isPlaying w" "trim (lyrics (slides ?t ! ?i)) \<noteq> []"
    by fastforce
  then show ?case
  proof cases
    case stop
    then have "trace (speakAndAdvance k w) = trace w @ stop_effects w"
      by (simp add: speakAndAdvance_stop stopSlideshow_eq)
    with not_speak_stop_effects [of _ w] show ?thesis by blast
  next
    case skip
    let ?w2 = "increment_currentSlideIndex k ?w1"
    from skip have "\<not> (length (slides ?t) \<le> ?i \<or> \<not> isPlaying w)" by simp
    from "1.IH" [OF this skip(3)] obtain es where
      es: "trace (speakAndAdvance k ?w2) = trace ?w2 @ es"
        "\<forall>u. Speak u \<in> set es \<longrightarrow> trim (utext u) \<noteq> [] \<and> handlers u = k"
      by blast
    have "trace ?w2 = trace w @ ?sc"
      by (simp add: increment_currentSlideIndex_def trace_scrollIntoView)
    with es(1) skip have "trace (speakAndAdvance k w) = trace w @ (?sc @ es)"
      by (simp add: speakAndAdvance_skip)
    moreover have "\<forall>u. Speak u \<in> set (?sc @ es) \<longrightarrow> trim (utext u) \<noteq> [] \<and> handlers u = k"
      using es(2) by simp
    ultimately show ?thesis by blast
  next
    case speak
    let ?u = "\<lparr>utext = lyrics (slides ?t ! ?i), voice = selectedVoice ?t w, handlers = k\<rparr>"
    from speak have "trace (speakAndAdvance k w) = trace w @ (?sc @ [Speak ?u])"
      by (simp add: speakAndAdvance_speak speech_speak_def emit_def trace_scrollIntoView)
    moreover have "\<forall>u. Speak u \<in> set (?sc @ [Speak ?u]) \<longrightarrow> trim (utext u) \<noteq> [] \<and> handlers u = k"
      using speak(3) by simp
    ultimately show ?thesis by blast
  qed
qed

lemma find_eq_member: "find (\<lambda>v. v = n) vs = (if n \<in> set vs then Some n else None)"
  by (induction vs) auto

lemma selectedVoice_eq:
  "selectedVoice t w =
     (case truthy (voiceName t) of
        None \<Rightarrow> None
      | Some n \<Rightarrow> if n \<in> set (voices w) then Some n else None)"
  by (simp add: selectedVoice_def find_eq_member split: option.split)

text \<open>
  Claim C9, as amended.  In a synthesized-speech session, every slide the cursor reaches is
  first scrolled into view, whether or not its text is blank.  Then a slide whose text is
  empty or blank is skipped at once: the call continues as the call on the next index, and
  no synthesis call is ever made for blank text.  A slide whose text is not blank is
  synthesized right after its scroll, with the item's voice when the item names one and the
  engine has it, and with the default voice otherwise.
\<close>

theorem speakAndAdvance_slide:
  assumes "isPlaying w"
    and "currentSlideIndex (closures w k) < length (slides (tiktok (closures w k)))"
    and "currentSlideIndex (closures w k) < children (slider (closures w k))"
  shows "(let i = currentSlideIndex (closures w k); t = tiktok (closures w k);
              scrolled = emit (ScrollIntoView (node (slider (closures w k))) i) w
          in (trim (lyrics (slides t ! i)) = [] \<longrightarrow>
                speakAndAdvance k w = speakAndAdvance k (increment_currentSlideIndex k scrolled))
           \<and> (trim (lyrics (slides t ! i)) \<noteq> [] \<longrightarrow>
                speakAndAdvance k w =
                  speech_speak
                    \<lparr>utext = lyrics (slides t ! i),
                     voice = (case truthy (voiceName t) of
                                None \<Rightarrow> None
                              | Some n \<Rightarrow> if n \<in> set (voices w) then Some n else None),
                     handlers = k\<rparr> scrolled)
           \<and> (\<exists>es. trace (speakAndAdvance k w) = trace scrolled @ es \<and>
                 (\<forall>u. Speak u \<in> set es \<longrightarrow> trim (utext u) \<noteq> [])))"
proof -
  let ?i = "currentSlideIndex (closures w k)"
  let ?t = "tiktok (closures w k)"
  let ?scrolled = "emit (ScrollIntoView (node (slider (closures w k))) ?i) w"
  have sc: "scrollIntoView (slider (closures w k)) (int ?i) w = ?scrolled"
    using assms(3) by (simp add: scrollIntoView_def)
  have blank: "speakAndAdvance k w = speakAndAdvance k (increment_currentSlideIndex k ?scrolled)"
    if "trim (lyrics (slides ?t ! ?i)) = []"
    using assms that by (simp add: speakAndAdvance_skip sc)
  have spoken: "speakAndAdvance k w =
      speech_speak
        \<lparr>utext = lyrics (slides ?t ! ?i),
         voice = (case truthy (voiceName ?t) of
                    None \<Rightarrow> None
                  | Some n \<Rightarrow> if n \<in> set (voices w) then Some n else None),
         handlers = k\<rparr> ?scrolled"
    if "trim (lyrics (slides ?t ! ?i)) \<noteq> []"
    using assms that
    by (simp add: speakAndAdvance_speak sc selectedVoice_eq [symmetric])
  have "\<exists>es. trace (speakAndAdvance k w) = trace ?scrolled @ es \<and>
          (\<forall>u. Speak u \<in> set es \<longrightarrow> trim (utext u) \<noteq> [])"
  proof (cases "trim (lyrics (slides ?t ! ?i)) = []")
    case True
    from trace_speakAndAdvance [of k "increment_currentSlideIndex k ?scrolled"]
    obtain es where "trace (speakAndAdvance k (increment_currentSlideIndex k ?scrolled)) =
        trace (increment_currentSlideIndex k ?scrolled) @ es"
      "\<forall>u. Speak u \<in> set es \<longrightarrow> trim (utext u) \<noteq> [] \<and> handlers u = k"
      by blast
    with blank [OF True] show ?thesis
      by (auto simp: increment_currentSlideIndex_def)
  next
    case False
    from spoken [OF False] False
    have "trace (speakAndAdvance k w) = trace ?scrolled @ [Speak
        \<lparr>utext = lyrics (slides ?t ! ?i),
         voice = (case truthy (voiceName ?t) of
                    None \<Rightarrow> None
                  | Some n \<Rightarrow> if n \<in> set (voices w) then Some n else None),
         handlers = k\<rparr>]"
      by (simp add: speech_speak_def emit_def)
    with False show ?thesis by simp
  qed
  with blank spoken show ?thesis by (simp add: Let_def)
qed

text \<open>
  The claim as written has the scroll only for slides with text.  In the session of
  \<open>demo_speech\<close>, slide 1 is empty and is scrolled into view when the first utterance
  completes.
\<close>

theorem scroll_of_blank_slide:
  "trim (lyrics (slides demo_speech ! 1)) = [] \<and>
   ScrollIntoView 7 1 \<in> set (trace (utterance_ended (startSlideshow (demo_world demo_speech))))"
  by code_simp


theorem speakAndAdvance_slide_witness:
  "trim (lyrics (slides (tiktok (closures demo_speech_after_A 0)) ! 1)) = [] \<and>
   speakAndAdvance 0 demo_speech_after_A =
     speakAndAdvance 0
       (increment_currentSlideIndex 0 (emit (ScrollIntoView 7 1) demo_speech_after_A))"
proof -
  have h: "isPlaying demo_speech_after_A"
    "currentSlideIndex (closures demo_speech_after_A 0) <
       length (slides (tiktok (closures demo_speech_after_A 0)))"
    "currentSlideIndex (closures demo_speech_after_A 0) <
       children (slider (closures demo_speech_after_A 0))"
    by code_simp+
  have e: "currentSlideIndex (closures demo_speech_after_A 0) = 1"
    "node (slider (closures demo_speech_after_A 0)) = 7"
    "trim (lyrics (slides (tiktok (closures demo_speech_after_A 0)) ! 1)) = []"
    by code_simp+
  from speakAndAdvance_slide [OF h] e show ?thesis by (simp add: Let_def)
qed


section \<open>Activation of an item\<close>

lemma setupSlideObserverForActiveTikTok_active:
  "activeTikTokContainer w = Some c \<Longrightarrow>
   setupSlideObserverForActiveTikTok w =
     w\<lparr>slideObserver := Some (node c),
       trace := trace w @ (case slideObserver w of None \<Rightarrow> [] | Some n \<Rightarrow> [Disconnect n]) @
                [Observe (node c) (children c)]\<rparr>"
  by (simp add: setupSlideObserverForActiveTikTok_def Let_def emit_def split: option.split)

text \<open>
  Claim C2.  The item observer acts on an entry \<open>(c, x)\<close> only when the entry intersects and
  its target is not the active container; it leaves the state and the trace untouched when
  the entry does not intersect or its target is the active container.  On a transition the
  result is the observer rebinding applied to the stopped state with the new container made
  active: the session flag is off, both handles are null and the elements they held are
  paused, the queue is empty, the new container is active, the slide observer is bound to
  it, and in the trace the pause and cancel calls of the stop come before the disconnect of
  the previous slide observer and the observation of the new slides.
\<close>

theorem tiktokObserver_activation:
  "(\<not> x \<or> map_option node (activeTikTokContainer w) = Some (node c) \<longrightarrow>
      tiktokObserver_entry (c, x) w = w)
   \<and> (x \<and> map_option node (activeTikTokContainer w) \<noteq> Some (node c) \<longrightarrow>
        tiktokObserver_entry (c, x) w =
          setupSlideObserverForActiveTikTok
            ((stopSlideshow w)\<lparr>activeTikTokContainer := Some c\<rparr>)
      \<and> activeTikTokContainer (tiktokObserver_entry (c, x) w) = Some c
      \<and> slideObserver (tiktokObserver_entry (c, x) w) = Some (node c)
      \<and> idle (tiktokObserver_entry (c, x) w)
      \<and> (\<forall>a \<in> handles w. paused (audios (tiktokObserver_entry (c, x) w) a))
      \<and> (live_audio w \<subseteq> handles w \<longrightarrow> released (tiktokObserver_entry (c, x) w))
      \<and> trace (tiktokObserver_entry (c, x) w) =
          trace w @ stop_effects w @
          (case slideObserver w of None \<Rightarrow> [] | Some n \<Rightarrow> [Disconnect n]) @
          [Observe (node c) (children c)])"
proof (intro conjI impI)
  assume "\<not> x \<or> map_option node (activeTikTokContainer w) = Some (node c)"
  then show "tiktokObserver_entry (c, x) w = w"
    by (auto simp: tiktokObserver_entry_def)
next
  assume h: "x \<and> map_option node (activeTikTokContainer w) \<noteq> Some (node c)"
  let ?w1 = "(stopSlideshow w)\<lparr>activeTikTokContainer := Some c\<rparr>"
  from h show eq: "tiktokObserver_entry (c, x) w = setupSlideObserverForActiveTikTok ?w1"
    by (simp add: tiktokObserver_entry_def)
  have nf: "setupSlideObserverForActiveTikTok ?w1 =
     ?w1\<lparr>slideObserver := Some (node c),
       trace := trace ?w1 @ (case slideObserver ?w1 of None \<Rightarrow> [] | Some n \<Rightarrow> [Disconnect n]) @
                [Observe (node c) (children c)]\<rparr>"
    by (rule setupSlideObserverForActiveTikTok_active) simp
  show "activeTikTokContainer (tiktokObserver_entry (c, x) w) = Some c"
    and "slideObserver (tiktokObserver_entry (c, x) w) = Some (node c)"
    unfolding eq nf by simp_all
  show "idle (tiktokObserver_entry (c, x) w)"
    unfolding eq nf by (simp add: idle_def stopSlideshow_eq)
  show "\<forall>a \<in> handles w. paused (audios (tiktokObserver_entry (c, x) w) a)"
    unfolding eq nf by (simp add: stopSlideshow_eq)
  show "trace (tiktokObserver_entry (c, x) w) =
          trace w @ stop_effects w @
          (case slideObserver w of None \<Rightarrow> [] | Some n \<Rightarrow> [Disconnect n]) @
          [Observe (node c) (children c)]"
    unfolding eq nf by (simp add: stopSlideshow_eq)
  {
    assume "live_audio w \<subseteq> handles w"
    then have "released (stopSlideshow w)" by (rule released_stopSlideshow)
    then show "released (tiktokObserver_entry (c, x) w)"
      unfolding eq nf by (simp add: released_def live_audio_def)
  }
qed

theorem tiktokObserver_activation_witness:
  "tiktokObserver_entry (tiktokContainer 7 demo_speech, True) (startSlideshow (demo_world demo_speech))
     = startSlideshow (demo_world demo_speech) \<and>
   activeTikTokContainer (tiktokObserver_entry (tiktokContainer 8 demo_song, True)
     (startSlideshow (demo_world demo_speech))) = Some (tiktokContainer 8 demo_song) \<and>
   idle (tiktokObserver_entry (tiktokContainer 8 demo_song, True)
     (startSlideshow (demo_world demo_speech))) \<and>
   released (tiktokObserver_entry (tiktokContainer 8 demo_song, True)
     (startSlideshow (demo_world demo_speech)))"
proof -
  let ?w = "startSlideshow (demo_world demo_speech)"
  have same: "map_option node (activeTikTokContainer ?w) =
      Some (node (tiktokContainer 7 demo_speech))"
    by code_simp
  have other: "True \<and>
      map_option node (activeTikTokContainer ?w) \<noteq> Some (node (tiktokContainer 8 demo_song))"
    by code_simp
  have live: "live_audio ?w \<subseteq> handles ?w"
    by code_simp
  note t1 = tiktokObserver_activation [of True ?w "tiktokContainer 7 demo_speech",
      THEN conjunct1, rule_format, OF disjI2, OF same]
  note t2 = tiktokObserver_activation [of True ?w "tiktokContainer 8 demo_song",
      THEN conjunct2, rule_format, OF other]
  from t2 live have "released (tiktokObserver_entry (tiktokContainer 8 demo_song, True) ?w)"
    by blast
  with t1 t2 show ?thesis by blast
qed


section \<open>Playback errors\<close>

lemma no_restart_stop_effects: "filter (\<lambda>e. is_play e \<or> is_speak e) (stop_effects w) = []"
  by (simp add: stop_effects_def split: option.split)

lemma effects_since_emit_stopSlideshow:
  "trace w1 = trace w @ es \<Longrightarrow>
   effects_since w (stopSlideshow w1) = es @ stop_effects w1"
  by (simp add: effects_since_def stopSlideshow_eq)

lemma released_stopSlideshow_emit:
  assumes "live_audio w \<subseteq> handles w"
  shows "released (stopSlideshow (emit e w))"
proof -
  from assms have "live_audio (emit e w) \<subseteq> handles (emit e w)"
    by (simp add: live_audio_def handles_def emit_def)
  then show ?thesis by (rule released_stopSlideshow)
qed

text \<open>
  Claim C7.  The catch handler of the instrumental \<^verbatim>\<open>play()\<close> promise only shows the error:
  the state is the one before, with the popup call added to the trace, so the session and
  its narration go on.  The speech error handler, the catch handler of the narration
  \<^verbatim>\<open>play()\<close> promise and the narration error handler each show a message that carries the
  underlying error (the speech error code, the rejection's message, the media error's message
  and code when the element has one) and then run the stop: the engine is idle, nothing the
  session held is live, and the handler makes no play and no synthesis call, so nothing is
  retried.
\<close>

theorem playback_error_policy:
  "instrumental_play_catch msg w =
     w\<lparr>trace := trace w @ [ShowErrorPopup (''Instrumental playback failed:'' @ [CHR 0x0A] @ msg)]\<rparr>
   \<and> idle (utterance_onerror err w)
   \<and> effects_since w (utterance_onerror err w) =
       [ConsoleError ''SpeechSynthesis Error:'',
        ShowErrorPopup (''Speech synthesis failed: '' @ err)] @ stop_effects w
   \<and> idle (vocal_play_catch msg w)
   \<and> effects_since w (vocal_play_catch msg w) =
       [ShowErrorPopup (''Vocal playback failed:'' @ [CHR 0x0A] @ msg)] @ stop_effects w
   \<and> idle (audio_onerror w)
   \<and> effects_since w (audio_onerror w) =
       [ShowErrorPopup (''Vocal playback failed:'' @ [CHR 0x0A] @
          (case currentAudio w of
             None \<Rightarrow> ''An unknown error occurred.''
           | Some a \<Rightarrow>
               (case media_error (audios w a) of
                  None \<Rightarrow> ''An unknown error occurred.''
                | Some (m, c) \<Rightarrow> m @ '' (code: '' @ decimal c @ '')'')))] @ stop_effects w
   \<and> filter (\<lambda>e. is_play e \<or> is_speak e) (effects_since w (utterance_onerror err w)) = []
   \<and> filter (\<lambda>e. is_play e \<or> is_speak e) (effects_since w (vocal_play_catch msg w)) = []
   \<and> filter (\<lambda>e. is_play e \<or> is_speak e) (effects_since w (audio_onerror w)) = []
   \<and> (live_audio w \<subseteq> handles w \<longrightarrow>
        released (utterance_onerror err w) \<and> released (vocal_play_catch msg w) \<and>
        released (audio_onerror w))"
proof -
  have a: "instrumental_play_catch msg w =
     w\<lparr>trace := trace w @ [ShowErrorPopup (''Instrumental playback failed:'' @ [CHR 0x0A] @ msg)]\<rparr>"
    by (simp add: instrumental_play_catch_def emit_def)
  have b: "effects_since w (utterance_onerror err w) =
       [ConsoleError ''SpeechSynthesis Error:'',
        ShowErrorPopup (''Speech synthesis failed: '' @ err)] @ stop_effects w"
    by (simp add: utterance_onerror_def effects_since_def stopSlideshow_eq emit_def
        stop_effects_def)
  have c: "effects_since w (vocal_play_catch msg w) =
       [ShowErrorPopup (''Vocal playback failed:'' @ [CHR 0x0A] @ msg)] @ stop_effects w"
    by (simp add: vocal_play_catch_def effects_since_def stopSlideshow_eq emit_def
        stop_effects_def)
  have d: "effects_since w (audio_onerror w) =
       [ShowErrorPopup (''Vocal playback failed:'' @ [CHR 0x0A] @
          (case currentAudio w of
             None \<Rightarrow> ''An unknown error occurred.''
           | Some a \<Rightarrow>
               (case media_error (audios w a) of
                  None \<Rightarrow> ''An unknown error occurred.''
                | Some (m, c) \<Rightarrow> m @ '' (code: '' @ decimal c @ '')'')))] @ stop_effects w"
    by (simp add: audio_onerror_def Let_def effects_since_def stopSlideshow_eq emit_def
        stop_effects_def split: option.split)
  have i: "idle (utterance_onerror err w)" "idle (vocal_play_catch msg w)" "idle (audio_onerror w)"
    by (simp_all add: utterance_onerror_def vocal_play_catch_def audio_onerror_def Let_def
        idle_stopSlideshow)
  have r: "released (utterance_onerror err w) \<and> released (vocal_play_catch msg w) \<and>
        released (audio_onerror w)" if "live_audio w \<subseteq> handles w"
  proof -
    from that have "live_audio (emit e (emit e' w)) \<subseteq> handles (emit e (emit e' w))" for e e'
      by (simp add: live_audio_def handles_def emit_def)
    then have "released (utterance_onerror err w)"
      unfolding utterance_onerror_def by (rule released_stopSlideshow)
    with that show ?thesis
      by (simp add: vocal_play_catch_def audio_onerror_def Let_def released_stopSlideshow_emit)
  qed
  from a b c d i r show ?thesis
    by (simp add: no_restart_stop_effects)
qed


theorem playback_error_policy_witness:
  "live_audio demo_song_playing \<subseteq> handles demo_song_playing \<and>
   released (audio_onerror demo_song_playing) \<and>
   released (vocal_play_catch ''NotSupportedError'' demo_song_playing) \<and>
   released (utterance_onerror ''network'' demo_song_playing)"
proof -
  have live: "live_audio demo_song_playing \<subseteq> handles demo_song_playing"
    by code_simp
  with playback_error_policy [of "''NotSupportedError''" demo_song_playing "''network''"]
  show ?thesis by blast
qed

section \<open>Callbacks of a stopped session\<close>

lemmas eval_defs = demo_world_def demo_speech_def demo_song_def demo_blank_def demo_beat_def
  demo_slide_def tiktokContainer_def startSlideshow_def startSlideshow_session_def
  startSlideshow_instrumental_def stopSlideshow_def Let_def prim_defs speakAndAdvance.simps
  selectedVoice_def trim_def isWhiteSpace_def utterance_onend_def utterance_onerror_def
  utterance_ended_def timeupdate_event_def audio_timeupdate_def effects_since_def


lemma stale_callbacks_when_idle:
  assumes "idle w"
  shows "utterance_onend u w = increment_currentSlideIndex (handlers u) w"
    and "audio_timeupdate k w = w"
    and "utterance_onerror err w =
      emit (ShowErrorPopup (''Speech synthesis failed: '' @ err))
        (emit (ConsoleError ''SpeechSynthesis Error:'') w)"
proof -
  have "idle (increment_currentSlideIndex (handlers u) w)"
    using assms by (simp add: idle_def increment_currentSlideIndex_def)
  then show "utterance_onend u w = increment_currentSlideIndex (handlers u) w"
    by (simp add: utterance_onend_def speakAndAdvance_stop stopSlideshow_idle idle_def)
  show "audio_timeupdate k w = w"
    using assms by (simp add: audio_timeupdate_def idle_def)
  have "idle (emit (ShowErrorPopup (''Speech synthesis failed: '' @ err))
        (emit (ConsoleError ''SpeechSynthesis Error:'') w))"
    using assms by (simp add: idle_def emit_def)
  then show "utterance_onerror err w =
      emit (ShowErrorPopup (''Speech synthesis failed: '' @ err))
        (emit (ConsoleError ''SpeechSynthesis Error:'') w)"
    by (simp add: utterance_onerror_def stopSlideshow_idle)
qed

text \<open>
  Claim C6.  While the engine stays idle after a stop, a callback of the stopped session
  changes no playback variable and makes no scroll and no synthesis call
  (\<open>stale_callbacks_when_idle\<close>): the completion handler moves the dead session's cursor
  and stops again, the time listener returns at once, the error handler shows its popup and
  stops again.  The guards read the module variables \<^verbatim>\<open>isPlaying\<close> and \<^verbatim>\<open>currentAudio\<close>,
  which a later start sets again.  So once a new session has been started, a callback of the
  stopped session acts on it.  In the speech example the completion handler of the first
  session's utterance scrolls to the slides 1 and 2 and queues an utterance of the first
  session next to the second session's; the error handler of the first session stops the
  second session; in the narration example the time listener of the first session's element
  scrolls to slide 1 from the second element's playback time.
\<close>

theorem stale_callback_after_restart:
  "isPlaying demo_restarted \<and>
   speechQueue demo_restarted = [\<lparr>utext = ''A'', voice = Some ''Alice'', handlers = 1\<rparr>] \<and>
   effects_since demo_restarted
     (utterance_onend \<lparr>utext = ''A'', voice = Some ''Alice'', handlers = 0\<rparr> demo_restarted) =
     [ScrollIntoView 7 1, ScrollIntoView 7 2,
      Speak \<lparr>utext = ''C'', voice = Some ''Alice'', handlers = 0\<rparr>] \<and>
   speechQueue
     (utterance_onend \<lparr>utext = ''A'', voice = Some ''Alice'', handlers = 0\<rparr> demo_restarted) =
     [\<lparr>utext = ''A'', voice = Some ''Alice'', handlers = 1\<rparr>,
      \<lparr>utext = ''C'', voice = Some ''Alice'', handlers = 0\<rparr>] \<and>
   \<not> isPlaying (utterance_onerror ''interrupted'' demo_restarted) \<and>
   speechQueue (utterance_onerror ''interrupted'' demo_restarted) = [] \<and>
   currentAudio demo_song_restarted = Some 4 \<and>
   listeners (audios demo_song_restarted 2) = Some 0 \<and>
   effects_since demo_song_restarted (timeupdate_event 2 3 demo_song_restarted) =
     [ScrollIntoView 7 1]"
proof -
  have speech: "isPlaying demo_restarted"
    "speechQueue demo_restarted = [\<lparr>utext = ''A'', voice = Some ''Alice'', handlers = 1\<rparr>]"
    "closures demo_restarted 0 =
       \<lparr>tiktok = demo_speech, slider = tiktokContainer 7 demo_speech, currentSlideIndex = 0,
        lastSlideIndex = - 1\<rparr>"
    "voices demo_restarted = [''Bob'', ''Alice'']"
    by (simp_all add: demo_restarted_def eval_defs)
  have onend: "utterance_onend \<lparr>utext = ''A'', voice = Some ''Alice'', handlers = 0\<rparr> demo_restarted =
      demo_restarted
        \<lparr>closures := (closures demo_restarted)(0 :=
            \<lparr>tiktok = demo_speech, slider = tiktokContainer 7 demo_speech, currentSlideIndex = 2,
             lastSlideIndex = - 1\<rparr>),
         speechQueue := speechQueue demo_restarted @
           [\<lparr>utext = ''C'', voice = Some ''Alice'', handlers = 0\<rparr>],
         trace := trace demo_restarted @ [ScrollIntoView 7 1, ScrollIntoView 7 2,
           Speak \<lparr>utext = ''C'', voice = Some ''Alice'', handlers = 0\<rparr>]\<rparr>"
    using speech
    by (simp add: utterance_onend_def speakAndAdvance.simps prim_defs selectedVoice_def trim_def
        isWhiteSpace_def demo_speech_def demo_slide_def tiktokContainer_def numeral_2_eq_2)
  have song: "currentAudio demo_song_restarted = Some 4"
    "listeners (audios demo_song_restarted 2) = Some 0"
    "effects_since demo_song_restarted (timeupdate_event 2 3 demo_song_restarted) =
       [ScrollIntoView 7 1]"
    by (simp_all add: demo_song_restarted_def eval_defs)
  from speech onend song show ?thesis
    by (simp add: effects_since_def utterance_onerror_def stopSlideshow_isPlaying
        stopSlideshow_speechQueue)
qed


end
